theory Spec2Isabelle
  imports Complex_Main
begin

section \<open>Vectors\<close>

text \<open>
  \<open>raycast.py\<close> works on \<open>arcade.Vec2\<close> (which is \<open>pyglet.math.Vec2\<close>), an
  immutable named tuple of two floats \<open>x\<close> and \<open>y\<close>. A float is modelled as the
  real number it stands for. The geometry is given twice: in exact arithmetic
  (\<open>cast\<close>, \<open>distance\<close>, \<open>look\<close>), and, where a claim depends on the rounding,
  with every operation rounded to a double (\<open>cast_fl\<close>, \<open>look_at\<close>, \<open>arange\<close>).
  Infinities and NaN are outside the model.
\<close>

record Vec2 =
  x :: real
  y :: real

text \<open>
  \<open>Vec2.__bool__\<close>: a vector is true unless both coordinates are zero
  (\<open>return self.x != 0.0 or self.y != 0.0\<close>). This is the \<open>Vec2\<close> of pyglet 2.1,
  the library version whose \<open>Vec2.from_polar(angle)\<close>, with the angle as only
  argument, the source calls. The tests \<open>if pt:\<close> and \<open>if closest:\<close> of
  \<open>Particle.look\<close> go through it.
\<close>

definition Vec2_bool :: "Vec2 \<Rightarrow> bool" where
  "Vec2_bool v = (x v \<noteq> 0 \<or> y v \<noteq> 0)"

text \<open>
  \<open>Vec2.distance\<close>: the Euclidean distance between two points, in exact arithmetic.
  (Python computes the squares with \<open>**\<close>, which raises \<open>OverflowError\<close> when a
  square leaves the range of doubles; such far points are outside the model.)
\<close>

definition distance :: "Vec2 \<Rightarrow> Vec2 \<Rightarrow> real" where
  "distance self other = sqrt ((x other - x self)\<^sup>2 + (y other - y self)\<^sup>2)"

text \<open>
  \<open>Vec2.from_polar(angle)\<close> with the default length \<open>1.0\<close>, and \<open>math.radians\<close>,
  both in exact arithmetic: the rounding of the library's \<open>cos\<close> and \<open>sin\<close> is not
  modelled.
\<close>

definition from_polar :: "real \<Rightarrow> Vec2" where
  "from_polar angle = \<lparr>x = 1 * cos angle, y = 1 * sin angle\<rparr>"

definition radians :: "real \<Rightarrow> real" where
  "radians deg = deg * (pi / 180)"

section \<open>Double precision\<close>

text \<open>
  A Python float is an IEEE 754 double: zero, or \<open>m * 2^e\<close> with an integer \<open>m\<close>,
  \<open>\<bar>m\<bar> < 2^53\<close>, and \<open>e \<ge> -1074\<close>. Addition, subtraction, multiplication, division
  and the square root return the exact result rounded to the nearest double, a tie going
  to the even \<open>m\<close>.

  \<open>fl\<close> is that rounding. \<open>fl_exp v\<close> is the exponent \<open>e\<close> of the doubles around
  \<open>v\<close>: \<open>2^52 \<le> \<bar>v\<bar> / 2^e < 2^53\<close>, or \<open>-1074\<close> for the subnormal numbers. Results
  beyond the largest double (which Python turns into \<open>inf\<close> or an \<open>OverflowError\<close>)
  and NaN are outside the model.
\<close>

definition round_half_even :: "real \<Rightarrow> int" where
  "round_half_even v =
     (let f = \<lfloor>v\<rfloor>
      in if v - of_int f < 1 / 2 then f
         else if 1 / 2 < v - of_int f then f + 1
         else if even f then f else f + 1)"

definition fl_exp :: "real \<Rightarrow> int" where
  "fl_exp v = max (- 1074) (\<lfloor>log 2 \<bar>v\<bar>\<rfloor> - 52)"

definition fl :: "real \<Rightarrow> real" where
  "fl v = (if v = 0 then 0
           else of_int (round_half_even (v / 2 powi fl_exp v)) * 2 powi fl_exp v)"

text \<open>The operations of Python on floats. Negation is exact.\<close>

definition fadd :: "real \<Rightarrow> real \<Rightarrow> real" where
  "fadd u v = fl (u + v)"

definition fsub :: "real \<Rightarrow> real \<Rightarrow> real" where
  "fsub u v = fl (u - v)"

definition fmul :: "real \<Rightarrow> real \<Rightarrow> real" where
  "fmul u v = fl (u * v)"

definition fdiv :: "real \<Rightarrow> real \<Rightarrow> real" where
  "fdiv u v = fl (u / v)"

definition fsqrt :: "real \<Rightarrow> real" where
  "fsqrt v = fl (sqrt v)"

text \<open>
  \<open>Vec2.normalize\<close>: \<open>d = math.sqrt(x ** 2 + y ** 2)\<close>, then \<open>Vec2(x / d, y / d)\<close>
  unless \<open>d\<close> is zero, in which case the vector itself is returned.
\<close>

definition Vec2_normalize :: "Vec2 \<Rightarrow> Vec2" where
  "Vec2_normalize v =
     (let d = fsqrt (fadd (fmul (x v) (x v)) (fmul (y v) (y v)))
      in if d \<noteq> 0 then \<lparr>x = fdiv (x v) d, y = fdiv (y v) d\<rparr> else v)"

section \<open>Walls and rays\<close>

text \<open>\<open>class Boundry\<close>: a wall from \<open>a\<close> to \<open>b\<close>.\<close>

record Boundry =
  a :: Vec2
  b :: Vec2

definition Boundry_init :: "real \<Rightarrow> real \<Rightarrow> real \<Rightarrow> real \<Rightarrow> Boundry" where
  "Boundry_init x1 y1 x2 y2 = \<lparr>a = \<lparr>x = x1, y = y1\<rparr>, b = \<lparr>x = x2, y = y2\<rparr>\<rparr>"

text \<open>\<open>class Ray\<close>: an origin \<open>pos\<close> and a direction \<open>dir\<close>.\<close>

record Ray =
  pos :: Vec2
  dir :: Vec2

definition Ray_init :: "Vec2 \<Rightarrow> real \<Rightarrow> Ray" where
  "Ray_init p angle_r = \<lparr>Ray.pos = p, dir = from_polar angle_r\<rparr>"

text \<open>
  \<open>Ray.cast\<close>: the line-line intersection test, in exact arithmetic. The result is
  \<open>None\<close> when the determinant is zero; the division happens only after that test.
\<close>

definition cast :: "Ray \<Rightarrow> Boundry \<Rightarrow> Vec2 option" where
  "cast self obj =
    (let x1 = x (a obj); y1 = y (a obj);
         x2 = x (b obj); y2 = y (b obj);
         x3 = x (Ray.pos self); y3 = y (Ray.pos self);
         x4 = x (Ray.pos self) + x (dir self);
         y4 = y (Ray.pos self) + y (dir self);
         d = (x1 - x2) * (y3 - y4) - (y1 - y2) * (x3 - x4)
     in if d = 0 then None
        else
          (let t = ((x1 - x3) * (y3 - y4) - (y1 - y3) * (x3 - x4)) / d;
               u = - (((x1 - x2) * (y1 - y3) - (y1 - y2) * (x1 - x3)) / d)
           in if t > 0 \<and> t \<le> 1 \<and> u > 0
              then Some \<lparr>x = x1 + t * (x2 - x1), y = y1 + t * (y2 - y1)\<rparr>
              else None))"

text \<open>
  The three quantities \<open>d\<close>, \<open>t\<close> and \<open>u\<close> of \<open>Ray.cast\<close> (lines 153, 159 and
  160), named so that statements can refer to them. \<open>cast_t\<close> and \<open>cast_u\<close> are what
  the code computes once \<open>d\<close> is known to be non-zero.
\<close>

definition cast_d :: "Ray \<Rightarrow> Boundry \<Rightarrow> real" where
  "cast_d self obj =
     (x (a obj) - x (b obj)) * (y (Ray.pos self) - (y (Ray.pos self) + y (dir self)))
     - (y (a obj) - y (b obj)) * (x (Ray.pos self) - (x (Ray.pos self) + x (dir self)))"

definition cast_t :: "Ray \<Rightarrow> Boundry \<Rightarrow> real" where
  "cast_t self obj =
     ((x (a obj) - x (Ray.pos self)) * (y (Ray.pos self) - (y (Ray.pos self) + y (dir self)))
      - (y (a obj) - y (Ray.pos self)) * (x (Ray.pos self) - (x (Ray.pos self) + x (dir self))))
     / cast_d self obj"

definition cast_u :: "Ray \<Rightarrow> Boundry \<Rightarrow> real" where
  "cast_u self obj =
     - (((x (a obj) - x (b obj)) * (y (a obj) - y (Ray.pos self))
         - (y (a obj) - y (b obj)) * (x (a obj) - x (Ray.pos self)))
        / cast_d self obj)"

text \<open>
  \<open>Ray.cast\<close> as Python runs it: the same computation with every operation rounded to
  a double. \<open>cast\<close> above is its idealisation in exact arithmetic.
\<close>

definition cast_fl :: "Ray \<Rightarrow> Boundry \<Rightarrow> Vec2 option" where
  "cast_fl self obj =
    (let x1 = x (a obj); y1 = y (a obj);
         x2 = x (b obj); y2 = y (b obj);
         x3 = x (Ray.pos self); y3 = y (Ray.pos self);
         x4 = fadd (x (Ray.pos self)) (x (dir self));
         y4 = fadd (y (Ray.pos self)) (y (dir self));
         d = fsub (fmul (fsub x1 x2) (fsub y3 y4)) (fmul (fsub y1 y2) (fsub x3 x4))
     in if d = 0 then None
        else
          (let t = fdiv (fsub (fmul (fsub x1 x3) (fsub y3 y4))
                              (fmul (fsub y1 y3) (fsub x3 x4))) d;
               u = - fdiv (fsub (fmul (fsub x1 x2) (fsub y1 y3))
                                (fmul (fsub y1 y2) (fsub x1 x3))) d
           in if t > 0 \<and> t \<le> 1 \<and> u > 0
              then Some \<lparr>x = fadd x1 (fmul t (fsub x2 x1)), y = fadd y1 (fmul t (fsub y2 y1))\<rparr>
              else None))"

text \<open>The doubles \<open>d\<close>, \<open>t\<close> and \<open>u\<close> that \<open>cast_fl\<close> computes.\<close>

definition cast_fl_d :: "Ray \<Rightarrow> Boundry \<Rightarrow> real" where
  "cast_fl_d self obj =
     fsub (fmul (fsub (x (a obj)) (x (b obj)))
                (fsub (y (Ray.pos self)) (fadd (y (Ray.pos self)) (y (dir self)))))
          (fmul (fsub (y (a obj)) (y (b obj)))
                (fsub (x (Ray.pos self)) (fadd (x (Ray.pos self)) (x (dir self)))))"

definition cast_fl_t :: "Ray \<Rightarrow> Boundry \<Rightarrow> real" where
  "cast_fl_t self obj =
     fdiv (fsub (fmul (fsub (x (a obj)) (x (Ray.pos self)))
                      (fsub (y (Ray.pos self)) (fadd (y (Ray.pos self)) (y (dir self)))))
                (fmul (fsub (y (a obj)) (y (Ray.pos self)))
                      (fsub (x (Ray.pos self)) (fadd (x (Ray.pos self)) (x (dir self))))))
          (cast_fl_d self obj)"

definition cast_fl_u :: "Ray \<Rightarrow> Boundry \<Rightarrow> real" where
  "cast_fl_u self obj =
     - fdiv (fsub (fmul (fsub (x (a obj)) (x (b obj))) (fsub (y (a obj)) (y (Ray.pos self))))
                  (fmul (fsub (y (a obj)) (y (b obj))) (fsub (x (a obj)) (x (Ray.pos self)))))
            (cast_fl_d self obj)"

text \<open>\<open>Ray.look_at\<close>: the direction becomes the normalised vector from the origin to \<open>d\<close>.\<close>

definition look_at :: "Ray \<Rightarrow> Vec2 \<Rightarrow> Ray" where
  "look_at self d =
     self\<lparr>dir := Vec2_normalize \<lparr>x = fsub (x d) (x (Ray.pos self)),
                                y = fsub (y d) (y (Ray.pos self))\<rparr>\<rparr>"

text \<open>\<open>Ray.move_to\<close>: assigns the origin, nothing else.\<close>

definition Ray_move_to :: "Ray \<Rightarrow> Vec2 \<Rightarrow> Ray" where
  "Ray_move_to self p = self\<lparr>Ray.pos := p\<rparr>"

section \<open>The particle and its fan of rays\<close>

record Particle =
  pos :: Vec2
  rays :: "Ray list"
  ray_lines :: "Vec2 list"

definition WINDOW_WIDTH :: real where
  "WINDOW_WIDTH = 1024"

definition WINDOW_HEIGHT :: real where
  "WINDOW_HEIGHT = 720"

text \<open>
  \<open>numpy.arange(start, stop, step)\<close> on floats. The length is the ceiling of the double
  \<open>(stop - start) / step\<close> (no element when that is not positive); a zero step raises,
  which is the result \<open>None\<close> here. The first element is \<open>start\<close>, the second
  \<open>start + step\<close>, and numpy fills the rest with \<open>start + i * delta\<close> where
  \<open>delta = (start + step) - start\<close>, every operation in double precision. The limit on
  the size of an array is outside the model.
\<close>

definition arange :: "real \<Rightarrow> real \<Rightarrow> real \<Rightarrow> real list option" where
  "arange start stop step =
     (if step = 0 then None
      else
        (let nxt = fadd start step;
             delta = fsub nxt start
         in Some (map (\<lambda>i. if i = 0 then start
                            else if i = 1 then nxt
                            else fadd start (fmul (real i) delta))
                      [0..<nat \<lceil>fdiv (fsub stop start) step\<rceil>])))"

text \<open>
  \<open>Particle.__init__\<close>: the particle starts in the middle of the window with one ray
  for each angle of \<open>np.arange(0, 360, deg_between_rays)\<close>.
\<close>

definition Particle_init :: "real \<Rightarrow> Particle option" where
  "Particle_init deg_between_rays =
     (let p = \<lparr>x = WINDOW_WIDTH / 2, y = WINDOW_HEIGHT / 2\<rparr>
      in case arange 0 360 deg_between_rays of
           None \<Rightarrow> None
         | Some angles \<Rightarrow>
             Some \<lparr>Particle.pos = p,
                   rays = map (\<lambda>ang. Ray_init p (radians ang)) angles,
                   ray_lines = []\<rparr>)"

text \<open>
  The running minimum \<open>record\<close> of \<open>Particle.look\<close> starts at \<open>math.inf\<close>; every
  distance is below \<open>Math_inf\<close>.
\<close>

datatype dist_record = Math_inf | Dist real

fun less_record :: "real \<Rightarrow> dist_record \<Rightarrow> bool" where
  "less_record d Math_inf = True"
| "less_record d (Dist e) = (d < e)"

text \<open>
  The inner loop of \<open>Particle.look\<close> (lines 222 to 228) for one ray \<open>r\<close>, from the
  particle's position \<open>p\<close>, carrying \<open>record\<close> and \<open>closest\<close>. \<open>if pt:\<close> is
  false for \<open>None\<close> and for a vector that \<open>Vec2_bool\<close> makes false.
\<close>

fun look_walls ::
  "Vec2 \<Rightarrow> Ray \<Rightarrow> Boundry list \<Rightarrow> dist_record \<Rightarrow> Vec2 option \<Rightarrow> dist_record \<times> Vec2 option"
where
  "look_walls p r [] rcd closest = (rcd, closest)"
| "look_walls p r (w # ws) rcd closest =
     (case cast r w of
        None \<Rightarrow> look_walls p r ws rcd closest
      | Some pt \<Rightarrow>
          if Vec2_bool pt then
            (let dist = distance p pt
             in if less_record dist rcd
                then look_walls p r ws (Dist dist) (Some pt)
                else look_walls p r ws rcd closest)
          else look_walls p r ws rcd closest)"

text \<open>
  The outer loop (lines 219 to 230): a ray whose \<open>closest\<close> is true appends it to
  \<open>ray_lines\<close>, any other ray appends nothing.
\<close>

fun look_rays :: "Boundry list \<Rightarrow> Ray list \<Rightarrow> Particle \<Rightarrow> Particle" where
  "look_rays bs [] self = self"
| "look_rays bs (r # rs) self =
     (case snd (look_walls (Particle.pos self) r bs Math_inf None) of
        None \<Rightarrow> look_rays bs rs self
      | Some c \<Rightarrow>
          if Vec2_bool c
          then look_rays bs rs (self\<lparr>ray_lines := ray_lines self @ [c]\<rparr>)
          else look_rays bs rs self)"

text \<open>\<open>Particle.look\<close>: clear \<open>ray_lines\<close>, then run the loops.\<close>

definition look :: "Particle \<Rightarrow> Boundry list \<Rightarrow> Particle" where
  "look self bs = look_rays bs (rays self) (self\<lparr>ray_lines := []\<rparr>)"

text \<open>\<open>Particle.move_to\<close>: assign the position, then move every ray to it.\<close>

definition Particle_move_to :: "Particle \<Rightarrow> Vec2 \<Rightarrow> Particle" where
  "Particle_move_to self p =
     (let self1 = self\<lparr>Particle.pos := p\<rparr>
      in self1\<lparr>rays := map (\<lambda>ray. Ray_move_to ray (Particle.pos self1)) (rays self1)\<rparr>)"

section \<open>The calls as state transformers\<close>

text \<open>
  To state what \<open>Ray.cast\<close> and \<open>Particle.look\<close> leave unchanged, the objects they
  can reach are put in one state: the particle with its rays, and the list of walls
  passed to \<open>look\<close>. A ray or wall is named by its index, as \<open>enumerate\<close> numbers
  them in \<open>look\<close>. Every call takes the state and returns the state after it.
\<close>

record World =
  particle :: Particle
  walls :: "Boundry list"

text \<open>
  \<open>r.cast(b)\<close> for ray \<open>ri\<close> and wall \<open>bi\<close>: the body of \<open>Ray.cast\<close> reads the
  fields of both and assigns to local variables only.
\<close>

definition cast_st :: "nat \<Rightarrow> nat \<Rightarrow> World \<Rightarrow> Vec2 option \<times> World" where
  "cast_st ri bi \<sigma> = (cast (rays (particle \<sigma>) ! ri) (walls \<sigma> ! bi), \<sigma>)"

text \<open>The two loops of \<open>Particle.look\<close>, threading the state through every call.\<close>

fun look_walls_st ::
  "nat \<Rightarrow> nat list \<Rightarrow> dist_record \<Rightarrow> Vec2 option \<Rightarrow> World
     \<Rightarrow> (dist_record \<times> Vec2 option) \<times> World"
where
  "look_walls_st ri [] rcd closest \<sigma> = ((rcd, closest), \<sigma>)"
| "look_walls_st ri (bi # bis) rcd closest \<sigma> =
     (case cast_st ri bi \<sigma> of
        (None, \<sigma>') \<Rightarrow> look_walls_st ri bis rcd closest \<sigma>'
      | (Some pt, \<sigma>') \<Rightarrow>
          if Vec2_bool pt then
            (let dist = distance (Particle.pos (particle \<sigma>')) pt
             in if less_record dist rcd
                then look_walls_st ri bis (Dist dist) (Some pt) \<sigma>'
                else look_walls_st ri bis rcd closest \<sigma>')
          else look_walls_st ri bis rcd closest \<sigma>')"

fun look_rays_st :: "nat list \<Rightarrow> World \<Rightarrow> World" where
  "look_rays_st [] \<sigma> = \<sigma>"
| "look_rays_st (ri # ris) \<sigma> =
     (case look_walls_st ri [0..<length (walls \<sigma>)] Math_inf None \<sigma> of
        ((rcd, None), \<sigma>') \<Rightarrow> look_rays_st ris \<sigma>'
      | ((rcd, Some c), \<sigma>') \<Rightarrow>
          if Vec2_bool c
          then look_rays_st ris
                 (\<sigma>'\<lparr>particle := (particle \<sigma>')\<lparr>ray_lines := ray_lines (particle \<sigma>') @ [c]\<rparr>\<rparr>)
          else look_rays_st ris \<sigma>')"

definition look_st :: "World \<Rightarrow> World" where
  "look_st \<sigma> =
     look_rays_st [0..<length (rays (particle \<sigma>))]
       (\<sigma>\<lparr>particle := (particle \<sigma>)\<lparr>ray_lines := []\<rparr>\<rparr>)"

section \<open>Rounding to double\<close>

text \<open>
  How \<open>fl\<close> is evaluated: a value within half a unit of \<open>m * 2^-k\<close> rounds to it, a
  value half way between two doubles rounds to the even one, and a double is its own
  rounding.
\<close>

lemma round_half_even_near:
  assumes "\<bar>v - of_int m\<bar> < 1 / 2"
  shows "round_half_even v = m"
proof (cases "of_int m \<le> v")
  case True
  from True assms have "of_int m \<le> v" and "v < of_int m + 1" by linarith+
  then have f: "\<lfloor>v\<rfloor> = m" by (rule floor_unique)
  from True assms have "v - of_int m < 1 / 2" by linarith
  with f show ?thesis by (simp add: round_half_even_def Let_def)
next
  case False
  have m1: "real_of_int (m - 1) = of_int m - 1" by simp
  from False assms have "of_int (m - 1) \<le> v" and "v < of_int (m - 1) + 1"
    unfolding m1 by linarith+
  then have f: "\<lfloor>v\<rfloor> = m - 1" by (rule floor_unique)
  from False assms have "1 / 2 < v - of_int (m - 1)" unfolding m1 by linarith
  then have "\<not> v - of_int (m - 1) < 1 / 2" by linarith
  with f \<open>1 / 2 < v - of_int (m - 1)\<close> show ?thesis
    by (simp add: round_half_even_def Let_def)
qed

lemma fl_exp_eq:
  assumes "- 1074 \<le> e" and "2 ^ 52 * 2 powi e \<le> \<bar>v\<bar>" and "\<bar>v\<bar> < 2 ^ 53 * 2 powi e"
  shows "fl_exp v = e"
proof -
  have pos: "0 < \<bar>v\<bar>"
  proof -
    have "(0::real) < 2 ^ 52 * 2 powi e" by simp
    with assms(2) show ?thesis by linarith
  qed
  have p1: "(2::real) powr real_of_int (e + 52) = 2 ^ 52 * 2 powi e"
    using powr_real_of_int' [of 2 "e + 52"] by (simp add: power_int_add)
  have eq: "real_of_int (e + 52) + 1 = real_of_int (e + 53)" by simp
  have p2': "(2::real) powr real_of_int (e + 53) = 2 ^ 53 * 2 powi e"
    using powr_real_of_int' [of 2 "e + 53"] by (simp add: power_int_add)
  have p2: "(2::real) powr (real_of_int (e + 52) + 1) = 2 ^ 53 * 2 powi e"
    unfolding eq by (rule p2')
  have "\<lfloor>log 2 \<bar>v\<bar>\<rfloor> = e + 52"
    using pos assms(2,3) p1 p2 by (subst floor_log_eq_powr_iff) simp_all
  with assms(1) show ?thesis by (simp add: fl_exp_def)
qed

lemma fl_val:
  assumes "k \<le> 1074" and "2 ^ 52 \<le> \<bar>v\<bar> * 2 ^ k" and "\<bar>v\<bar> * 2 ^ k < 2 ^ 53"
    and "\<bar>v * 2 ^ k - of_int m\<bar> < 1 / 2"
  shows "fl v = of_int m / 2 ^ k"
proof -
  have pk: "(2::real) powi (- int k) = 1 / 2 ^ k"
    by (simp add: power_int_minus field_simps)
  have e: "fl_exp v = - int k"
    using assms(1,2,3) by (intro fl_exp_eq) (simp_all add: pk field_simps)
  from assms(2) have "v \<noteq> 0" by auto
  moreover have "round_half_even (v / 2 powi (- int k)) = m"
    using assms(4) by (intro round_half_even_near) (simp add: pk)
  ultimately show ?thesis by (simp add: fl_def e pk)
qed


lemma round_half_even_tie:
  assumes "v = of_int f + 1 / 2"
  shows "round_half_even v = (if even f then f else f + 1)"
proof -
  from assms have "of_int f \<le> v" and "v < of_int f + 1" by simp_all
  then have "\<lfloor>v\<rfloor> = f" by (rule floor_unique)
  with assms show ?thesis by (simp add: round_half_even_def Let_def)
qed

lemma fl_tie:
  assumes "k \<le> 1074" and "2 ^ 52 \<le> \<bar>v\<bar> * 2 ^ k" and "\<bar>v\<bar> * 2 ^ k < 2 ^ 53"
    and "v * 2 ^ k = of_int f + 1 / 2"
  shows "fl v = of_int (if even f then f else f + 1) / 2 ^ k"
proof -
  have pk: "(2::real) powi (- int k) = 1 / 2 ^ k"
    by (simp add: power_int_minus field_simps)
  have e: "fl_exp v = - int k"
    using assms(1,2,3) by (intro fl_exp_eq) (simp_all add: pk field_simps)
  from assms(2) have "v \<noteq> 0" by auto
  moreover have "round_half_even (v / 2 powi (- int k)) = (if even f then f else f + 1)"
    using assms(4) by (intro round_half_even_tie) (simp add: pk)
  ultimately show ?thesis by (simp add: fl_def e pk)
qed

lemma round_half_even_int: "round_half_even (of_int j) = j"
  by (simp add: round_half_even_def)

lemma log2_powi: "log 2 (2 powi E) = of_int E"
proof -
  have "log 2 (2 powr real_of_int E) = real_of_int E" by simp
  then show ?thesis using powr_real_of_int' [of 2 E] by simp
qed

lemma fl_exp_scaled:
  assumes "n \<noteq> 0"
  shows "fl_exp (of_int n * 2 powi E) = max (- 1074) (\<lfloor>log 2 \<bar>of_int n\<bar>\<rfloor> + E - 52)"
proof -
  have "\<bar>real_of_int n * 2 powi E\<bar> = \<bar>of_int n\<bar> * 2 powi E"
    by (simp add: abs_mult)
  moreover have "log 2 (\<bar>real_of_int n\<bar> * 2 powi E) = log 2 \<bar>of_int n\<bar> + of_int E"
    using assms by (simp add: log_mult log2_powi)
  ultimately show ?thesis
    by (simp add: fl_exp_def)
qed

lemma floor_log2_le:
  assumes "1 \<le> \<bar>n\<bar>" and "\<bar>n\<bar> < 2 ^ 53"
  shows "\<lfloor>log 2 \<bar>real_of_int n\<bar>\<rfloor> \<le> 52"
proof -
  from assms(2) have "real_of_int \<bar>n\<bar> < real_of_int (2 ^ 53)"
    by (simp only: of_int_less_iff)
  then have "\<bar>real_of_int n\<bar> < 2 powr 53" by simp
  moreover from assms(1) have "0 < \<bar>real_of_int n\<bar>" by simp
  ultimately have "log 2 \<bar>real_of_int n\<bar> < 53"
    by (simp add: log_less_iff)
  then show ?thesis by linarith
qed

lemma fl_exact:
  assumes "\<bar>n\<bar> \<le> 2 ^ 53" and "- 1074 \<le> E"
  shows "fl (of_int n * 2 powi E) = of_int n * 2 powi E"
proof (cases "n = 0")
  case True
  then show ?thesis by (simp add: fl_def)
next
  case False
  then have n1: "1 \<le> \<bar>n\<bar>" by simp
  define w where "w = real_of_int n * 2 powi E"
  define e where "e = fl_exp w"
  have w0: "w \<noteq> 0" using False by (simp add: w_def)
  have flw: "fl w = of_int (round_half_even (w / 2 powi e)) * 2 powi e"
    using w0 by (simp add: fl_def e_def)
  have "fl w = w"
  proof (cases "\<bar>n\<bar> < 2 ^ 53")
    case True
    have "e \<le> E"
      unfolding e_def w_def
      using floor_log2_le [OF n1 True] assms(2) by (simp add: fl_exp_scaled [OF False])
    define j where "j = nat (E - e)"
    from \<open>e \<le> E\<close> have j: "E = e + int j" by (simp add: j_def)
    have "(2::real) powi E = 2 powi e * 2 ^ j"
      unfolding j by (simp add: power_int_add)
    then have wj: "w = of_int (n * 2 ^ j) * 2 powi e"
      by (simp add: w_def)
    then have "w / 2 powi e = of_int (n * 2 ^ j)"
      by simp
    then have "round_half_even (w / 2 powi e) = n * 2 ^ j"
      by (simp only: round_half_even_int)
    with flw wj show ?thesis by (simp only:)
  next
    case False
    with assms(1) have nn: "\<bar>n\<bar> = 2 ^ 53" by simp
    then have "real_of_int \<bar>n\<bar> = real_of_int (2 ^ 53)" by (simp only:)
    then have "\<bar>real_of_int n\<bar> = 2 powr 53" by simp
    then have "log 2 \<bar>real_of_int n\<bar> = 53"
      by (simp only: log_powr_cancel)
    then have e: "e = E + 1"
      unfolding e_def w_def using assms(2) by (simp add: fl_exp_scaled [OF \<open>n \<noteq> 0\<close>])
    from nn have "n = 2 ^ 53 \<or> n = - (2 ^ 53)" by linarith
    then have ev: "n = 2 * (n div 2)" by auto
    have "(2::real) powi e = 2 powi E * 2"
      unfolding e by (simp add: power_int_add)
    moreover have "real_of_int n = of_int (n div 2) * 2"
      by (subst ev) simp
    ultimately have wj: "w = of_int (n div 2) * 2 powi e"
      by (simp add: w_def)
    then have "w / 2 powi e = of_int (n div 2)"
      by simp
    then have "round_half_even (w / 2 powi e) = n div 2"
      by (simp only: round_half_even_int)
    with flw wj show ?thesis by (simp only:)
  qed
  then show ?thesis by (simp only: w_def)
qed

lemma fl_int: "\<bar>n\<bar> \<le> 2 ^ 53 \<Longrightarrow> fl (of_int n) = of_int n"
  using fl_exact [of n 0] by simp

lemma fl_numeral: "numeral k \<le> (2::int) ^ 53 \<Longrightarrow> fl (numeral k) = numeral k"
  using fl_int [of "numeral k"] by simp

lemma fl_neg_numeral: "numeral k \<le> (2::int) ^ 53 \<Longrightarrow> fl (- numeral k) = - numeral k"
  using fl_int [of "- numeral k"] by simp

lemma fl_zero: "fl 0 = 0"
  by (simp add: fl_def)

lemma fl_one: "fl 1 = 1"
  using fl_int [of 1] by simp

lemma fl_neg_one: "fl (- 1) = - 1"
  using fl_int [of "- 1"] by simp

lemma round_half_even_bound:
  assumes "\<bar>v\<bar> < 2 ^ 53"
  shows "\<bar>round_half_even v\<bar> \<le> 2 ^ 53"
proof -
  have lo: "- (2 ^ 53) \<le> \<lfloor>v\<rfloor>"
  proof -
    have "real_of_int (- (2 ^ 53)) \<le> v" using assms by simp
    then show ?thesis by (simp only: le_floor_iff)
  qed
  have hi: "\<lfloor>v\<rfloor> + 1 \<le> 2 ^ 53"
  proof -
    have "v < real_of_int (2 ^ 53)" using assms by simp
    then have "\<lfloor>v\<rfloor> < 2 ^ 53" by (simp only: floor_less_iff)
    then show ?thesis by simp
  qed
  have "round_half_even v = \<lfloor>v\<rfloor> \<or> round_half_even v = \<lfloor>v\<rfloor> + 1"
    by (simp add: round_half_even_def Let_def)
  then show ?thesis
  proof
    assume "round_half_even v = \<lfloor>v\<rfloor>"
    with lo hi show ?thesis by linarith
  next
    assume "round_half_even v = \<lfloor>v\<rfloor> + 1"
    with lo hi show ?thesis by linarith
  qed
qed

lemma fl_exp_ge: "- 1074 \<le> fl_exp v"
  by (simp add: fl_exp_def)

lemma fl_scaled_bound:
  assumes "v \<noteq> 0"
  shows "\<bar>v / 2 powi fl_exp v\<bar> < 2 ^ 53"
proof -
  have pos: "0 < \<bar>v\<bar>" using assms by simp
  have "real_of_int \<lfloor>log 2 \<bar>v\<bar>\<rfloor> - 52 \<le> real_of_int (fl_exp v)"
    by (simp add: fl_exp_def)
  then have le: "log 2 \<bar>v\<bar> < real_of_int (fl_exp v) + 53"
    by linarith
  have "\<bar>v\<bar> < 2 powr (real_of_int (fl_exp v) + 53)"
    using pos le by (simp add: log_less_iff)
  also have "real_of_int (fl_exp v) + 53 = real_of_int (fl_exp v + 53)" by simp
  also have "2 powr real_of_int (fl_exp v + 53) = 2 ^ 53 * 2 powi fl_exp v"
    using powr_real_of_int' [of 2 "fl_exp v + 53"] by (simp add: power_int_add)
  finally have "\<bar>v\<bar> < 2 ^ 53 * 2 powi fl_exp v" .
  then have "\<bar>v\<bar> / 2 powi fl_exp v < 2 ^ 53"
    by (simp add: field_simps)
  then show ?thesis by (simp add: abs_divide)
qed

lemma fl_idem: "fl (fl v) = fl v"
proof (cases "v = 0")
  case True
  then show ?thesis by (simp add: fl_def)
next
  case False
  then have "fl v = of_int (round_half_even (v / 2 powi fl_exp v)) * 2 powi fl_exp v"
    by (simp add: fl_def)
  moreover have "fl (of_int (round_half_even (v / 2 powi fl_exp v)) * 2 powi fl_exp v)
      = of_int (round_half_even (v / 2 powi fl_exp v)) * 2 powi fl_exp v"
    using round_half_even_bound [OF fl_scaled_bound [OF False]] fl_exp_ge [of v]
    by (rule fl_exact)
  ultimately show ?thesis by simp
qed

section \<open>The intersection test\<close>

lemma cast_unfold:
  "cast r w =
     (if cast_d r w = 0 then None
      else if 0 < cast_t r w \<and> cast_t r w \<le> 1 \<and> 0 < cast_u r w
           then Some \<lparr>x = x (a w) + cast_t r w * (x (b w) - x (a w)),
                      y = y (a w) + cast_t r w * (y (b w) - y (a w))\<rparr>
           else None)"
  by (simp add: cast_def cast_d_def cast_t_def cast_u_def Let_def)

text \<open>
  C3. Whenever the determinant \<open>d\<close> is exactly zero (parallel or coincident lines,
  overlapping ones included), \<open>Ray.cast\<close> returns \<open>None\<close>: a value, not an error.
\<close>

theorem cast_parallel_none:
  "cast_d r w = 0 \<Longrightarrow> cast r w = None"
  by (simp add: cast_unfold)

theorem cast_parallel_none_witness:
  "cast_d \<lparr>Ray.pos = \<lparr>x = 0, y = 0\<rparr>, dir = \<lparr>x = 1, y = 0\<rparr>\<rparr> (Boundry_init 2 0 5 0) = 0
   \<and> cast \<lparr>Ray.pos = \<lparr>x = 0, y = 0\<rparr>, dir = \<lparr>x = 1, y = 0\<rparr>\<rparr> (Boundry_init 2 0 5 0) = None"
proof -
  have h: "cast_d \<lparr>Ray.pos = \<lparr>x = 0, y = 0\<rparr>, dir = \<lparr>x = 1, y = 0\<rparr>\<rparr> (Boundry_init 2 0 5 0) = 0"
    by (simp add: cast_d_def Boundry_init_def)
  show ?thesis
    using h cast_parallel_none [OF h] by simp
qed

text \<open>
  C9. From the origin \<open>(0,0)\<close>, against the wall from \<open>(10,-10)\<close> to \<open>(10,10)\<close>:
  the ray with direction \<open>(1,0)\<close> hits at \<open>(10,0)\<close>; the ray with direction
  \<open>(-1,0)\<close> has the wall behind it and gets \<open>None\<close>.
\<close>

theorem cast_scenario:
  "cast \<lparr>Ray.pos = \<lparr>x = 0, y = 0\<rparr>, dir = \<lparr>x = 1, y = 0\<rparr>\<rparr> (Boundry_init 10 (-10) 10 10)
     = Some \<lparr>x = 10, y = 0\<rparr>
   \<and> cast \<lparr>Ray.pos = \<lparr>x = 0, y = 0\<rparr>, dir = \<lparr>x = - 1, y = 0\<rparr>\<rparr> (Boundry_init 10 (-10) 10 10)
     = None"
  by (simp add: cast_def Boundry_init_def Let_def)

text \<open>
  C4. A point returned by \<open>Ray.cast\<close> lies on the wall between its endpoints: it is
  \<open>a + t * (b - a)\<close> for some \<open>t\<close> with \<open>0 < t \<le> 1\<close>.
\<close>

theorem cast_on_segment:
  "cast r w = Some p \<Longrightarrow>
     \<exists>t. 0 < t \<and> t \<le> 1
       \<and> p = \<lparr>x = x (a w) + t * (x (b w) - x (a w)), y = y (a w) + t * (y (b w) - y (a w))\<rparr>"
  by (auto simp: cast_unfold split: if_splits)

theorem cast_on_segment_witness:
  "cast \<lparr>Ray.pos = \<lparr>x = 0, y = 0\<rparr>, dir = \<lparr>x = 1, y = 0\<rparr>\<rparr> (Boundry_init 10 (-10) 10 30)
     = Some \<lparr>x = 10, y = 0\<rparr>
   \<and> (\<exists>t. 0 < t \<and> t \<le> 1
        \<and> \<lparr>x = 10, y = 0\<rparr>
            = \<lparr>x = x (a (Boundry_init 10 (-10) 10 30))
                    + t * (x (b (Boundry_init 10 (-10) 10 30)) - x (a (Boundry_init 10 (-10) 10 30))),
               y = y (a (Boundry_init 10 (-10) 10 30))
                    + t * (y (b (Boundry_init 10 (-10) 10 30)) - y (a (Boundry_init 10 (-10) 10 30)))\<rparr>)"
proof -
  have h: "cast \<lparr>Ray.pos = \<lparr>x = 0, y = 0\<rparr>, dir = \<lparr>x = 1, y = 0\<rparr>\<rparr> (Boundry_init 10 (-10) 10 30)
             = Some \<lparr>x = 10, y = 0\<rparr>"
    by (simp add: cast_def Boundry_init_def Let_def)
  show ?thesis
    using h cast_on_segment [OF h] by simp
qed

text \<open>
  In exact arithmetic a ray that passes through the endpoint \<open>b\<close> at ray parameter
  \<open>k\<close> computes \<open>t = 1\<close> and \<open>u = k\<close>, and a ray whose line passes through the
  endpoint \<open>a\<close> computes \<open>t = 0\<close>. In double precision neither holds, as C2 shows.
\<close>

lemma cast_t_at_b:
  assumes "cast_d r w \<noteq> 0"
    and "x (b w) = x (Ray.pos r) + k * x (dir r)"
    and "y (b w) = y (Ray.pos r) + k * y (dir r)"
  shows "cast_t r w = 1"
proof -
  have "(x (a w) - x (Ray.pos r)) * (y (Ray.pos r) - (y (Ray.pos r) + y (dir r)))
        - (y (a w) - y (Ray.pos r)) * (x (Ray.pos r) - (x (Ray.pos r) + x (dir r)))
        = cast_d r w"
    unfolding cast_d_def using assms(2,3) by (simp add: algebra_simps)
  then show ?thesis
    using assms(1) by (simp add: cast_t_def)
qed

lemma cast_u_at_b:
  assumes "cast_d r w \<noteq> 0"
    and "x (b w) = x (Ray.pos r) + k * x (dir r)"
    and "y (b w) = y (Ray.pos r) + k * y (dir r)"
  shows "cast_u r w = k"
proof -
  have "(x (a w) - x (b w)) * (y (a w) - y (Ray.pos r))
        - (y (a w) - y (b w)) * (x (a w) - x (Ray.pos r))
        = - k * cast_d r w"
    unfolding cast_d_def using assms(2,3) by (simp add: algebra_simps)
  then show ?thesis
    using assms(1) by (simp add: cast_u_def)
qed

lemma cast_t_at_a:
  assumes "x (a w) = x (Ray.pos r) + k * x (dir r)"
    and "y (a w) = y (Ray.pos r) + k * y (dir r)"
  shows "cast_t r w = 0"
  using assms by (simp add: cast_t_def algebra_simps)

lemma cast_fl_unfold:
  "cast_fl r w =
     (if cast_fl_d r w = 0 then None
      else if 0 < cast_fl_t r w \<and> cast_fl_t r w \<le> 1 \<and> 0 < cast_fl_u r w
           then Some \<lparr>x = fadd (x (a w)) (fmul (cast_fl_t r w) (fsub (x (b w)) (x (a w)))),
                      y = fadd (y (a w)) (fmul (cast_fl_t r w) (fsub (y (b w)) (y (a w))))\<rparr>
           else None)"
  by (simp add: cast_fl_def cast_fl_d_def cast_fl_t_def cast_fl_u_def Let_def)

text \<open>
  C2, as stated, fails in double precision. The ray at \<open>(0,0)\<close> aimed by
  \<open>look_at\<close> at the endpoint \<open>b = (3,4)\<close> of the wall from \<open>(1,0)\<close> to \<open>(3,4)\<close>
  gets the direction \<open>(0.6, 0.8)\<close> in doubles and computes \<open>t = 1 + 2^-52\<close>, so
  \<open>Ray.cast\<close> returns \<open>None\<close>, not \<open>b\<close>. The ray at \<open>(-1,0)\<close> aimed at the endpoint
  \<open>a = (3,3)\<close> of the wall from \<open>(3,3)\<close> to \<open>(0,0)\<close> computes a small positive
  \<open>t\<close>, so \<open>Ray.cast\<close> returns a point, not \<open>None\<close>.
\<close>

theorem cast_fl_endpoints:
  "dir
       (look_at \<lparr>Ray.pos = \<lparr>x = 0, y = 0\<rparr>, dir = \<lparr>x = 1, y = 0\<rparr>\<rparr> \<lparr>x = 3, y = 4\<rparr>)
     = \<lparr>x = 5404319552844595 / 9007199254740992,
       y = 3602879701896397 / 4503599627370496\<rparr>
   \<and> cast_fl_t
       (look_at \<lparr>Ray.pos = \<lparr>x = 0, y = 0\<rparr>, dir = \<lparr>x = 1, y = 0\<rparr>\<rparr> \<lparr>x = 3, y = 4\<rparr>) (Boundry_init 1 0 3 4)
     = 4503599627370497 / 4503599627370496
   \<and> cast_fl
       (look_at \<lparr>Ray.pos = \<lparr>x = 0, y = 0\<rparr>, dir = \<lparr>x = 1, y = 0\<rparr>\<rparr> \<lparr>x = 3, y = 4\<rparr>) (Boundry_init 1 0 3 4)
     = None
   \<and> dir
       (look_at \<lparr>Ray.pos = \<lparr>x = - 1, y = 0\<rparr>, dir = \<lparr>x = 1, y = 0\<rparr>\<rparr> \<lparr>x = 3, y = 3\<rparr>)
     = \<lparr>x = 3602879701896397 / 4503599627370496,
       y = 5404319552844595 / 9007199254740992\<rparr>
   \<and> cast_fl_t
       (look_at \<lparr>Ray.pos = \<lparr>x = - 1, y = 0\<rparr>, dir = \<lparr>x = 1, y = 0\<rparr>\<rparr> \<lparr>x = 3, y = 3\<rparr>) (Boundry_init 3 3 0 0)
     = 1876499844737705 / 2535301200456458802993406410752
   \<and> cast_fl
       (look_at \<lparr>Ray.pos = \<lparr>x = - 1, y = 0\<rparr>, dir = \<lparr>x = 1, y = 0\<rparr>\<rparr> \<lparr>x = 3, y = 3\<rparr>) (Boundry_init 3 3 0 0)
     = Some \<lparr>x = 6755399441055739 / 2251799813685248,
            y = 6755399441055739 / 2251799813685248\<rparr>"
proof -
  let ?rb = "look_at \<lparr>Ray.pos = \<lparr>x = 0, y = 0\<rparr>, dir = \<lparr>x = 1, y = 0\<rparr>\<rparr> \<lparr>x = 3, y = 4\<rparr>"
  let ?ra = "look_at \<lparr>Ray.pos = \<lparr>x = - 1, y = 0\<rparr>, dir = \<lparr>x = 1, y = 0\<rparr>\<rparr> \<lparr>x = 3, y = 3\<rparr>"
  have s25: "sqrt 25 = 5"
    by (rule real_sqrt_unique) simp_all
  have b1: "fl (- (5404319552844595 / 9007199254740992))
             = - (5404319552844595 / 9007199254740992)"
    using fl_val [where v = "- (5404319552844595 / 9007199254740992)"
                  and k = 53 and m = "- 5404319552844595"]
    by simp
  have b2: "fl (5404319552844595 / 9007199254740992)
             = 5404319552844595 / 9007199254740992"
    using fl_val [where v = "5404319552844595 / 9007199254740992"
                  and k = 53 and m = "5404319552844595"]
    by simp
  have b3: "fl (3 / 5)
             = 5404319552844595 / 9007199254740992"
    using fl_val [where v = "3 / 5"
                  and k = 53 and m = "5404319552844595"]
    by simp
  have b4: "fl (- (900719925474099 / 1125899906842624))
             = - (900719925474099 / 1125899906842624)"
    using fl_val [where v = "- (900719925474099 / 1125899906842624)"
                  and k = 53 and m = "- 7205759403792792"]
    by simp
  have b5: "fl (4 / 5)
             = 3602879701896397 / 4503599627370496"
    using fl_val [where v = "4 / 5"
                  and k = 53 and m = "7205759403792794"]
    by simp
  have b6: "fl (- (3602879701896397 / 4503599627370496))
             = - (3602879701896397 / 4503599627370496)"
    using fl_val [where v = "- (3602879701896397 / 4503599627370496)"
                  and k = 53 and m = "- 7205759403792794"]
    by simp
  have b7: "fl (3602879701896397 / 4503599627370496)
             = 3602879701896397 / 4503599627370496"
    using fl_val [where v = "3602879701896397 / 4503599627370496"
                  and k = 53 and m = "7205759403792794"]
    by simp
  have b8: "fl (3602879701896397 / 3602879701896396)
             = 4503599627370497 / 4503599627370496"
    using fl_val [where v = "3602879701896397 / 3602879701896396"
                  and k = 52 and m = "4503599627370497"]
    by simp
  have b9: "fl (3602879701896397 / 2251799813685248)
             = 3602879701896397 / 2251799813685248"
    using fl_val [where v = "3602879701896397 / 2251799813685248"
                  and k = 52 and m = "7205759403792794"]
    by simp
  have b10: "fl (5404319552844595 / 2251799813685248)
             = 5404319552844595 / 2251799813685248"
    using fl_val [where v = "5404319552844595 / 2251799813685248"
                  and k = 51 and m = "5404319552844595"]
    by simp
  have b11: "fl (- (4503599627370496 / 900719925474099))
             = - (5629499534213121 / 1125899906842624)"
    using fl_val [where v = "- (4503599627370496 / 900719925474099)"
                  and k = 50 and m = "- 5629499534213121"]
    by simp
  have lb: "?rb = \<lparr>Ray.pos = \<lparr>x = 0, y = 0\<rparr>,
                  dir = \<lparr>x = 5404319552844595 / 9007199254740992,
                         y = 3602879701896397 / 4503599627370496\<rparr>\<rparr>"
    by (simp add: look_at_def Vec2_normalize_def Let_def fadd_def fsub_def fmul_def fdiv_def fsqrt_def
          fl_numeral fl_neg_numeral fl_zero fl_one fl_neg_one
          s25 b3 b5)
  have db: "cast_fl_d ?rb (Boundry_init 1 0 3 4) = - (900719925474099 / 1125899906842624)"
    unfolding lb
    by (simp add: cast_fl_d_def Boundry_init_def fadd_def fsub_def fmul_def fdiv_def fsqrt_def
          fl_numeral fl_neg_numeral fl_zero fl_one fl_neg_one
          b1 b2 b3 b4 b5 b6 b7 b8 b9 b10 b11)
  have tb: "cast_fl_t ?rb (Boundry_init 1 0 3 4) = 4503599627370497 / 4503599627370496"
    unfolding cast_fl_t_def db unfolding lb
    by (simp add: Boundry_init_def fadd_def fsub_def fmul_def fdiv_def fsqrt_def
          fl_numeral fl_neg_numeral fl_zero fl_one fl_neg_one
          b1 b2 b3 b4 b5 b6 b7 b8 b9 b10 b11)
  have nb: "cast_fl ?rb (Boundry_init 1 0 3 4) = None"
    by (simp add: cast_fl_unfold db tb)
  have a1: "fl (1 / 2251799813685248)
             = 1 / 2251799813685248"
    using fl_val [where v = "1 / 2251799813685248"
                  and k = 103 and m = "4503599627370496"]
    by simp
  have a2: "fl (1 / 1351079888211150)
             = 1876499844737705 / 2535301200456458802993406410752"
    using fl_val [where v = "1 / 1351079888211150"
                  and k = 103 and m = "7505999378950820"]
    by simp
  have a3: "fl (- (5629499534213115 / 2535301200456458802993406410752))
             = - (5629499534213115 / 2535301200456458802993406410752)"
    using fl_val [where v = "- (5629499534213115 / 2535301200456458802993406410752)"
                  and k = 101 and m = "- 5629499534213115"]
    by simp
  have a4: "fl (- (900719925474099 / 4503599627370496))
             = - (900719925474099 / 4503599627370496)"
    using fl_val [where v = "- (900719925474099 / 4503599627370496)"
                  and k = 55 and m = "- 7205759403792792"]
    by simp
  have a5: "fl (- (5404319552844595 / 9007199254740992))
             = - (5404319552844595 / 9007199254740992)"
    using fl_val [where v = "- (5404319552844595 / 9007199254740992)"
                  and k = 53 and m = "- 5404319552844595"]
    by simp
  have a6: "fl (5404319552844595 / 9007199254740992)
             = 5404319552844595 / 9007199254740992"
    using fl_val [where v = "5404319552844595 / 9007199254740992"
                  and k = 53 and m = "5404319552844595"]
    by simp
  have a7: "fl (3 / 5)
             = 5404319552844595 / 9007199254740992"
    using fl_val [where v = "3 / 5"
                  and k = 53 and m = "5404319552844595"]
    by simp
  have a8: "fl (675539944105575 / 1125899906842624)
             = 675539944105575 / 1125899906842624"
    using fl_val [where v = "675539944105575 / 1125899906842624"
                  and k = 53 and m = "5404319552844600"]
    by simp
  have a9: "fl (4 / 5)
             = 3602879701896397 / 4503599627370496"
    using fl_val [where v = "4 / 5"
                  and k = 53 and m = "7205759403792794"]
    by simp
  have a10: "fl (- (3602879701896397 / 4503599627370496))
             = - (3602879701896397 / 4503599627370496)"
    using fl_val [where v = "- (3602879701896397 / 4503599627370496)"
                  and k = 53 and m = "- 7205759403792794"]
    by simp
  have a11: "fl (- (16212958658533785 / 9007199254740992))
             = - (2026619832316723 / 1125899906842624)"
    using fl_tie [where v = "- (16212958658533785 / 9007199254740992)"
                  and k = 52 and f = "- 8106479329266893"]
    by simp
  have a12: "fl (- (5404319552844595 / 2251799813685248))
             = - (5404319552844595 / 2251799813685248)"
    using fl_val [where v = "- (5404319552844595 / 2251799813685248)"
                  and k = 51 and m = "- 5404319552844595"]
    by simp
  have a13: "fl (- (10808639105689191 / 4503599627370496))
             = - (1351079888211149 / 562949953421312)"
    using fl_tie [where v = "- (10808639105689191 / 4503599627370496)"
                  and k = 51 and f = "- 5404319552844596"]
    by simp
  have a14: "fl (7605903601369370779480685019141 / 2535301200456458802993406410752)
             = 6755399441055739 / 2251799813685248"
    using fl_val [where v = "7605903601369370779480685019141 / 2535301200456458802993406410752"
                  and k = 51 and m = "6755399441055739"]
    by simp
  have a15: "fl (- (1125899906842624 / 225179981368525))
             = - (5629499534213115 / 1125899906842624)"
    using fl_val [where v = "- (1125899906842624 / 225179981368525)"
                  and k = 50 and m = "- 5629499534213115"]
    by simp
  have la: "?ra = \<lparr>Ray.pos = \<lparr>x = - 1, y = 0\<rparr>,
                  dir = \<lparr>x = 3602879701896397 / 4503599627370496,
                         y = 5404319552844595 / 9007199254740992\<rparr>\<rparr>"
    by (simp add: look_at_def Vec2_normalize_def Let_def fadd_def fsub_def fmul_def fdiv_def fsqrt_def
          fl_numeral fl_neg_numeral fl_zero fl_one fl_neg_one
          s25 a7 a9)
  have da: "cast_fl_d ?ra (Boundry_init 3 3 0 0) = 675539944105575 / 1125899906842624"
    unfolding la
    by (simp add: cast_fl_d_def Boundry_init_def fadd_def fsub_def fmul_def fdiv_def fsqrt_def
          fl_numeral fl_neg_numeral fl_zero fl_one fl_neg_one
          a1 a2 a3 a4 a5 a6 a7 a8 a9 a10 a11 a12 a13 a14 a15)
  have ta: "cast_fl_t ?ra (Boundry_init 3 3 0 0)
              = 1876499844737705 / 2535301200456458802993406410752"
    unfolding cast_fl_t_def da unfolding la
    by (simp add: Boundry_init_def fadd_def fsub_def fmul_def fdiv_def fsqrt_def
          fl_numeral fl_neg_numeral fl_zero fl_one fl_neg_one
          a1 a2 a3 a4 a5 a6 a7 a8 a9 a10 a11 a12 a13 a14 a15)
  have ua: "cast_fl_u ?ra (Boundry_init 3 3 0 0) = 5629499534213115 / 1125899906842624"
    unfolding cast_fl_u_def da unfolding la
    by (simp add: Boundry_init_def fadd_def fsub_def fmul_def fdiv_def fsqrt_def
          fl_numeral fl_neg_numeral fl_zero fl_one fl_neg_one
          a1 a2 a3 a4 a5 a6 a7 a8 a9 a10 a11 a12 a13 a14 a15)
  have ha: "cast_fl ?ra (Boundry_init 3 3 0 0)
              = Some \<lparr>x = 6755399441055739 / 2251799813685248,
                    y = 6755399441055739 / 2251799813685248\<rparr>"
    unfolding cast_fl_unfold da ta ua
    by (simp add: Boundry_init_def fadd_def fsub_def fmul_def fdiv_def fsqrt_def
          fl_numeral fl_neg_numeral fl_zero fl_one fl_neg_one
          a1 a2 a3 a4 a5 a6 a7 a8 a9 a10 a11 a12 a13 a14 a15)
  from tb nb ta ha show ?thesis
    by (simp add: lb la)
qed

text \<open>
  C2, amended. \<open>Ray.cast\<close> returns a point exactly when the \<open>d\<close> it computes is
  non-zero and the \<open>t\<close> and \<open>u\<close> it computes satisfy \<open>0 < t \<le> 1\<close> and \<open>u > 0\<close>, and
  the point is then \<open>a + t * (b - a)\<close> as computed. So a computed \<open>t = 1\<close> (with
  \<open>u > 0\<close>) returns the computed \<open>a + 1 * (b - a)\<close> and a computed \<open>t = 0\<close> returns
  \<open>None\<close>. This holds of the computation in doubles and of the one in exact arithmetic.
\<close>

theorem cast_fl_accept_iff:
  "(cast_fl r w = Some p \<longleftrightarrow>
      cast_fl_d r w \<noteq> 0 \<and> 0 < cast_fl_t r w \<and> cast_fl_t r w \<le> 1 \<and> 0 < cast_fl_u r w
      \<and> p = \<lparr>x = fadd (x (a w)) (fmul (cast_fl_t r w) (fsub (x (b w)) (x (a w)))),
              y = fadd (y (a w)) (fmul (cast_fl_t r w) (fsub (y (b w)) (y (a w))))\<rparr>)
   \<and> (cast_fl_d r w \<noteq> 0 \<and> cast_fl_t r w = 1 \<and> 0 < cast_fl_u r w \<longrightarrow>
        cast_fl r w = Some \<lparr>x = fadd (x (a w)) (fmul 1 (fsub (x (b w)) (x (a w)))),
                             y = fadd (y (a w)) (fmul 1 (fsub (y (b w)) (y (a w))))\<rparr>)
   \<and> (cast_fl_t r w = 0 \<longrightarrow> cast_fl r w = None)
   \<and> (cast r w = Some p \<longleftrightarrow>
      cast_d r w \<noteq> 0 \<and> 0 < cast_t r w \<and> cast_t r w \<le> 1 \<and> 0 < cast_u r w
      \<and> p = \<lparr>x = x (a w) + cast_t r w * (x (b w) - x (a w)),
              y = y (a w) + cast_t r w * (y (b w) - y (a w))\<rparr>)
   \<and> (cast_d r w \<noteq> 0 \<and> cast_t r w = 1 \<and> 0 < cast_u r w \<longrightarrow> cast r w = Some (b w))
   \<and> (cast_t r w = 0 \<longrightarrow> cast r w = None)"
proof (intro conjI impI)
  show "cast_fl r w = Some p \<longleftrightarrow>
      cast_fl_d r w \<noteq> 0 \<and> 0 < cast_fl_t r w \<and> cast_fl_t r w \<le> 1 \<and> 0 < cast_fl_u r w
      \<and> p = \<lparr>x = fadd (x (a w)) (fmul (cast_fl_t r w) (fsub (x (b w)) (x (a w)))),
              y = fadd (y (a w)) (fmul (cast_fl_t r w) (fsub (y (b w)) (y (a w))))\<rparr>"
    by (auto simp: cast_fl_unfold)
next
  assume "cast_fl_d r w \<noteq> 0 \<and> cast_fl_t r w = 1 \<and> 0 < cast_fl_u r w"
  then show "cast_fl r w = Some \<lparr>x = fadd (x (a w)) (fmul 1 (fsub (x (b w)) (x (a w)))),
                             y = fadd (y (a w)) (fmul 1 (fsub (y (b w)) (y (a w))))\<rparr>"
    by (simp add: cast_fl_unfold)
next
  assume "cast_fl_t r w = 0"
  then show "cast_fl r w = None"
    by (simp add: cast_fl_unfold)
next
  show "cast r w = Some p \<longleftrightarrow>
      cast_d r w \<noteq> 0 \<and> 0 < cast_t r w \<and> cast_t r w \<le> 1 \<and> 0 < cast_u r w
      \<and> p = \<lparr>x = x (a w) + cast_t r w * (x (b w) - x (a w)),
              y = y (a w) + cast_t r w * (y (b w) - y (a w))\<rparr>"
    by (auto simp: cast_unfold)
next
  assume "cast_d r w \<noteq> 0 \<and> cast_t r w = 1 \<and> 0 < cast_u r w"
  then show "cast r w = Some (b w)"
    by (simp add: cast_unfold)
next
  assume "cast_t r w = 0"
  then show "cast r w = None"
    by (simp add: cast_unfold)
qed

theorem cast_fl_accept_iff_witness:
  "cast_fl_t \<lparr>Ray.pos = \<lparr>x = 0, y = 0\<rparr>, dir = \<lparr>x = 1, y = 0\<rparr>\<rparr> (Boundry_init 10 (- 10) 10 0) = 1
   \<and> cast_fl \<lparr>Ray.pos = \<lparr>x = 0, y = 0\<rparr>, dir = \<lparr>x = 1, y = 0\<rparr>\<rparr> (Boundry_init 10 (- 10) 10 0) = Some \<lparr>x = 10, y = 0\<rparr>
   \<and> cast_fl_t \<lparr>Ray.pos = \<lparr>x = 0, y = 0\<rparr>, dir = \<lparr>x = 1, y = 0\<rparr>\<rparr> (Boundry_init 10 0 10 10) = 0
   \<and> cast_fl \<lparr>Ray.pos = \<lparr>x = 0, y = 0\<rparr>, dir = \<lparr>x = 1, y = 0\<rparr>\<rparr> (Boundry_init 10 0 10 10) = None
   \<and> cast_t \<lparr>Ray.pos = \<lparr>x = 0, y = 0\<rparr>, dir = \<lparr>x = 1, y = 0\<rparr>\<rparr> (Boundry_init 10 (- 10) 10 0) = 1
   \<and> cast \<lparr>Ray.pos = \<lparr>x = 0, y = 0\<rparr>, dir = \<lparr>x = 1, y = 0\<rparr>\<rparr> (Boundry_init 10 (- 10) 10 0) = Some \<lparr>x = 10, y = 0\<rparr>
   \<and> cast_t \<lparr>Ray.pos = \<lparr>x = 0, y = 0\<rparr>, dir = \<lparr>x = 1, y = 0\<rparr>\<rparr> (Boundry_init 10 0 10 10) = 0
   \<and> cast \<lparr>Ray.pos = \<lparr>x = 0, y = 0\<rparr>, dir = \<lparr>x = 1, y = 0\<rparr>\<rparr> (Boundry_init 10 0 10 10) = None"
proof -
  have d0: "cast_fl_d \<lparr>Ray.pos = \<lparr>x = 0, y = 0\<rparr>, dir = \<lparr>x = 1, y = 0\<rparr>\<rparr> (Boundry_init 10 (- 10) 10 0) = - 10"
    by (simp add: cast_fl_d_def Boundry_init_def fadd_def fsub_def fmul_def fdiv_def fsqrt_def fl_numeral fl_neg_numeral fl_zero fl_one fl_neg_one)
  have t0: "cast_fl_t \<lparr>Ray.pos = \<lparr>x = 0, y = 0\<rparr>, dir = \<lparr>x = 1, y = 0\<rparr>\<rparr> (Boundry_init 10 (- 10) 10 0) = 1"
    unfolding cast_fl_t_def d0 by (simp add: Boundry_init_def fadd_def fsub_def fmul_def fdiv_def fsqrt_def fl_numeral fl_neg_numeral fl_zero fl_one fl_neg_one)
  have u0: "cast_fl_u \<lparr>Ray.pos = \<lparr>x = 0, y = 0\<rparr>, dir = \<lparr>x = 1, y = 0\<rparr>\<rparr> (Boundry_init 10 (- 10) 10 0) = 10"
    unfolding cast_fl_u_def d0 by (simp add: Boundry_init_def fadd_def fsub_def fmul_def fdiv_def fsqrt_def fl_numeral fl_neg_numeral fl_zero fl_one fl_neg_one)
  have d1: "cast_fl_d \<lparr>Ray.pos = \<lparr>x = 0, y = 0\<rparr>, dir = \<lparr>x = 1, y = 0\<rparr>\<rparr> (Boundry_init 10 0 10 10) = - 10"
    by (simp add: cast_fl_d_def Boundry_init_def fadd_def fsub_def fmul_def fdiv_def fsqrt_def fl_numeral fl_neg_numeral fl_zero fl_one fl_neg_one)
  have t1: "cast_fl_t \<lparr>Ray.pos = \<lparr>x = 0, y = 0\<rparr>, dir = \<lparr>x = 1, y = 0\<rparr>\<rparr> (Boundry_init 10 0 10 10) = 0"
    unfolding cast_fl_t_def d1 by (simp add: Boundry_init_def fadd_def fsub_def fmul_def fdiv_def fsqrt_def fl_numeral fl_neg_numeral fl_zero fl_one fl_neg_one)
  have e0: "cast_d \<lparr>Ray.pos = \<lparr>x = 0, y = 0\<rparr>, dir = \<lparr>x = 1, y = 0\<rparr>\<rparr> (Boundry_init 10 (- 10) 10 0) = - 10"
    and e1: "cast_t \<lparr>Ray.pos = \<lparr>x = 0, y = 0\<rparr>, dir = \<lparr>x = 1, y = 0\<rparr>\<rparr> (Boundry_init 10 (- 10) 10 0) = 1"
    and e2: "cast_u \<lparr>Ray.pos = \<lparr>x = 0, y = 0\<rparr>, dir = \<lparr>x = 1, y = 0\<rparr>\<rparr> (Boundry_init 10 (- 10) 10 0) = 10"
    and e3: "cast_t \<lparr>Ray.pos = \<lparr>x = 0, y = 0\<rparr>, dir = \<lparr>x = 1, y = 0\<rparr>\<rparr> (Boundry_init 10 0 10 10) = 0"
    by (simp_all add: cast_d_def cast_t_def cast_u_def Boundry_init_def)
  show ?thesis
    using d0 t0 u0 t1 e0 e1 e2 e3
      cast_fl_accept_iff [of "\<lparr>Ray.pos = \<lparr>x = 0, y = 0\<rparr>, dir = \<lparr>x = 1, y = 0\<rparr>\<rparr>" "Boundry_init 10 (- 10) 10 0" "\<lparr>x = 10, y = 0\<rparr>"]
      cast_fl_accept_iff [of "\<lparr>Ray.pos = \<lparr>x = 0, y = 0\<rparr>, dir = \<lparr>x = 1, y = 0\<rparr>\<rparr>" "Boundry_init 10 0 10 10" "\<lparr>x = 10, y = 0\<rparr>"]
    by (simp add: Boundry_init_def fadd_def fsub_def fmul_def fdiv_def fsqrt_def fl_numeral fl_neg_numeral fl_zero fl_one fl_neg_one)
qed

section \<open>Building and moving the fan\<close>

text \<open>
  From \<open>start = 0\<close> and a step that is a double, the elements of
  \<open>np.arange(0, 360, step)\<close> are the doubles nearest to \<open>i * step\<close>, and their number
  is the ceiling of the double nearest to \<open>360 / step\<close>.
\<close>

lemma arange_fan:
  assumes "s \<noteq> 0" and "fl s = s"
  shows "arange 0 360 s = Some (map (\<lambda>i. fl (real i * s)) [0..<nat \<lceil>fl (360 / s)\<rceil>])"
proof -
  have el: "(if i = 0 then 0 else if i = 1 then s else fl (fl (real i * s))) = fl (real i * s)"
    for i :: nat
    by (simp add: fl_zero fl_idem assms(2))
  have "arange 0 360 s
          = Some (map (\<lambda>i. if i = 0 then 0 else if i = 1 then s else fl (fl (real i * s)))
                      [0..<nat \<lceil>fl (360 / s)\<rceil>])"
    using assms(1)
    by (simp add: arange_def Let_def fadd_def fsub_def fmul_def fdiv_def fl_numeral assms(2))
  then show ?thesis
    by (simp only: el)
qed

lemma Particle_init_doubles:
  assumes "s \<noteq> 0" and "fl s = s"
  shows "Particle_init s
           = Some \<lparr>Particle.pos = \<lparr>x = 512, y = 360\<rparr>,
                   rays = map (\<lambda>i. \<lparr>Ray.pos = \<lparr>x = 512, y = 360\<rparr>,
                                     dir = from_polar (radians (fl (real i * s)))\<rparr>)
                              [0..<nat \<lceil>fl (360 / s)\<rceil>],
                   ray_lines = []\<rparr>"
  by (simp add: Particle_init_def arange_fan [OF assms] Ray_init_def WINDOW_WIDTH_def
        WINDOW_HEIGHT_def Let_def comp_def)

text \<open>
  C7, as stated, fails in double precision. For the step \<open>32.72727272727273\<close> (the
  double nearest to \<open>360 / 11\<close>, a little below it) the quotient \<open>360 / step\<close> rounds
  to \<open>11.0\<close>: the fan has 11 rays, although \<open>\<lceil>360 / step\<rceil> = 12\<close> and the angle
  \<open>11 * step\<close> is below 360. For the step \<open>6.545454545454545\<close> the fan has 56 rays and
  the last angle, \<open>55 * step\<close>, rounds to \<open>360.0\<close>: it is not strictly below 360.
\<close>

theorem Particle_init_rounding:
  "fl (4605954164356189 / 140737488355328) = (4605954164356189 / 140737488355328)
   \<and> map_option (length \<circ> rays) (Particle_init (4605954164356189 / 140737488355328)) = Some 11
   \<and> nat \<lceil>360 / (4605954164356189 / 140737488355328 :: real)\<rceil> = 12
   \<and> 11 * (4605954164356189 / 140737488355328 :: real) < 360
   \<and> fl (3684763331484951 / 562949953421312) = (3684763331484951 / 562949953421312)
   \<and> map_option (length \<circ> rays) (Particle_init (3684763331484951 / 562949953421312)) = Some 56
   \<and> map_option (last \<circ> rays) (Particle_init (3684763331484951 / 562949953421312))
       = Some \<lparr>Ray.pos = \<lparr>x = 512, y = 360\<rparr>, dir = from_polar (radians 360)\<rparr>"
proof -
  have c1: "fl (3684763331484951 / 562949953421312) = 3684763331484951 / 562949953421312"
    using fl_val [where v = "3684763331484951 / 562949953421312" and k = 50 and m = "7369526662969902"] by simp
  have c2: "fl (50665495807918080 / 4605954164356189) = 11"
    using fl_val [where v = "50665495807918080 / 4605954164356189" and k = 49 and m = "6192449487634432"] by simp
  have c3: "fl (4605954164356189 / 140737488355328) = 4605954164356189 / 140737488355328"
    using fl_val [where v = "4605954164356189 / 140737488355328" and k = 47 and m = "4605954164356189"] by simp
  have c4: "fl (67553994410557440 / 1228254443828317) = 7740561859543041 / 140737488355328"
    using fl_val [where v = "67553994410557440 / 1228254443828317" and k = 47 and m = "7740561859543041"] by simp
  have c5: "fl (202661983231672305 / 562949953421312) = 360"
    using fl_val [where v = "202661983231672305 / 562949953421312" and k = 44 and m = "6333186975989760"] by simp
  have n1: "(4605954164356189 / 140737488355328) \<noteq> (0::real)" and n2: "(3684763331484951 / 562949953421312) \<noteq> (0::real)"
    by simp_all
  have p1: "map_option (length \<circ> rays) (Particle_init (4605954164356189 / 140737488355328)) = Some 11"
    by (simp add: Particle_init_doubles [OF n1 c3] c2)
  have p2: "map_option (length \<circ> rays) (Particle_init (3684763331484951 / 562949953421312)) = Some 56"
    by (simp add: Particle_init_doubles [OF n2 c1] c4)
  have p3: "map_option (last \<circ> rays) (Particle_init (3684763331484951 / 562949953421312))
       = Some \<lparr>Ray.pos = \<lparr>x = 512, y = 360\<rparr>, dir = from_polar (radians 360)\<rparr>"
    by (simp add: Particle_init_doubles [OF n2 c1] c4 last_map c5)
  have e1: "nat \<lceil>360 / (4605954164356189 / 140737488355328 :: real)\<rceil> = 12"
  proof -
    have "\<lceil>360 / (4605954164356189 / 140737488355328) :: real\<rceil> = 12"
      by (rule ceiling_unique) simp_all
    then show ?thesis by simp
  qed
  from c3 c1 p1 p2 p3 e1 show ?thesis
    by simp
qed

text \<open>
  C7, amended. For a step \<open>s\<close> with \<open>0 < s \<le> 360\<close> (a double),
  \<open>Particle.__init__\<close> succeeds and builds exactly \<open>\<lceil>q\<rceil>\<close> rays, where \<open>q\<close> is the
  double nearest to \<open>360 / s\<close>; the \<open>i\<close>-th ray, in this order, has the direction of
  the angle that is the double nearest to \<open>i * s\<close>, and every ray has the particle's
  initial position \<open>(512, 360)\<close> as origin.
\<close>

theorem Particle_init_fan:
  assumes "0 < s" and "s \<le> 360" and "fl s = s"
  shows "Particle_init s
           = Some \<lparr>Particle.pos = \<lparr>x = 512, y = 360\<rparr>,
                   rays = map (\<lambda>i. \<lparr>Ray.pos = \<lparr>x = 512, y = 360\<rparr>,
                                     dir = from_polar (radians (fl (real i * s)))\<rparr>)
                              [0..<nat \<lceil>fl (360 / s)\<rceil>],
                   ray_lines = []\<rparr>"
proof -
  from assms(1) have "s \<noteq> 0" by simp
  then show ?thesis using assms(3) by (rule Particle_init_doubles)
qed

theorem Particle_init_fan_witness:
  "Particle_init 90
     = Some \<lparr>Particle.pos = \<lparr>x = 512, y = 360\<rparr>,
             rays = map (\<lambda>i. \<lparr>Ray.pos = \<lparr>x = 512, y = 360\<rparr>,
                               dir = from_polar (radians (fl (real i * 90)))\<rparr>)
                        [0..<4],
             ray_lines = []\<rparr>"
proof -
  have h1: "(0::real) < 90" and h2: "(90::real) \<le> 360" and h3: "fl 90 = 90"
    by (simp_all add: fl_numeral)
  show ?thesis
    using Particle_init_fan [OF h1 h2 h3] by (simp add: fl_numeral)
qed

text \<open>
  C8. \<open>Particle.move_to\<close> sets the particle's position and the origin of every ray
  to the given point; the number of rays, every direction and \<open>ray_lines\<close> stay as
  they were.
\<close>

theorem Particle_move_to_frame:
  "Particle.pos (Particle_move_to s p) = p
   \<and> length (rays (Particle_move_to s p)) = length (rays s)
   \<and> map Ray.pos (rays (Particle_move_to s p)) = replicate (length (rays s)) p
   \<and> map dir (rays (Particle_move_to s p)) = map dir (rays s)
   \<and> ray_lines (Particle_move_to s p) = ray_lines s"
  by (simp add: Particle_move_to_def Ray_move_to_def Let_def comp_def map_replicate_const)

theorem Particle_move_to_frame_witness:
  "Particle_move_to \<lparr>Particle.pos = \<lparr>x = 512, y = 360\<rparr>,
             rays = [\<lparr>Ray.pos = \<lparr>x = 512, y = 360\<rparr>, dir = \<lparr>x = 1, y = 0\<rparr>\<rparr>,
                     \<lparr>Ray.pos = \<lparr>x = 512, y = 360\<rparr>, dir = \<lparr>x = 0, y = 1\<rparr>\<rparr>],
             ray_lines = []\<rparr> \<lparr>x = 3, y = 4\<rparr>
   = \<lparr>Particle.pos = \<lparr>x = 3, y = 4\<rparr>,
             rays = [\<lparr>Ray.pos = \<lparr>x = 3, y = 4\<rparr>, dir = \<lparr>x = 1, y = 0\<rparr>\<rparr>,
                     \<lparr>Ray.pos = \<lparr>x = 3, y = 4\<rparr>, dir = \<lparr>x = 0, y = 1\<rparr>\<rparr>],
             ray_lines = []\<rparr>"
  using Particle_move_to_frame [of "\<lparr>Particle.pos = \<lparr>x = 512, y = 360\<rparr>,
             rays = [\<lparr>Ray.pos = \<lparr>x = 512, y = 360\<rparr>, dir = \<lparr>x = 1, y = 0\<rparr>\<rparr>,
                     \<lparr>Ray.pos = \<lparr>x = 512, y = 360\<rparr>, dir = \<lparr>x = 0, y = 1\<rparr>\<rparr>],
             ray_lines = []\<rparr>" "\<lparr>x = 3, y = 4\<rparr>"]
  by (simp add: Particle_move_to_def Ray_move_to_def Let_def)

section \<open>Looking at the walls\<close>

lemma look_rays_frame:
  "Particle.pos (look_rays bs rs s) = Particle.pos s \<and> rays (look_rays bs rs s) = rays s"
  by (induction rs arbitrary: s) (simp_all split: option.split)

text \<open>
  The state-threading loops compute what \<open>look\<close> computes and return the rest of the
  state as they found it.
\<close>

lemma look_walls_st_eq:
  "look_walls_st ri bis rcd closest \<sigma>
     = (look_walls (Particle.pos (particle \<sigma>)) (rays (particle \<sigma>) ! ri)
          (map (\<lambda>bi. walls \<sigma> ! bi) bis) rcd closest, \<sigma>)"
  by (induction bis arbitrary: rcd closest)
     (simp_all add: cast_st_def Let_def split: option.split)

lemma look_rays_st_eq:
  "look_rays_st ris \<sigma>
     = \<sigma>\<lparr>particle := look_rays (walls \<sigma>) (map (\<lambda>ri. rays (particle \<sigma>) ! ri) ris) (particle \<sigma>)\<rparr>"
proof (induction ris arbitrary: \<sigma>)
  case Nil
  show ?case by simp
next
  case (Cons ri ris)
  have w: "map (\<lambda>bi. walls \<sigma> ! bi) [0..<length (walls \<sigma>)] = walls \<sigma>"
    by (rule map_nth)
  obtain rcd' cl where lw:
    "look_walls (Particle.pos (particle \<sigma>)) (rays (particle \<sigma>) ! ri) (walls \<sigma>) Math_inf None
       = (rcd', cl)"
    by fastforce
  show ?case
  proof (cases cl)
    case None
    with lw show ?thesis
      by (simp add: look_walls_st_eq w Cons.IH)
  next
    case (Some c)
    with lw show ?thesis
      by (simp add: look_walls_st_eq w Cons.IH)
  qed
qed

lemma look_st_eq:
  "look_st \<sigma> = \<sigma>\<lparr>particle := look (particle \<sigma>) (walls \<sigma>)\<rparr>"
proof -
  have "map (\<lambda>ri. rays (particle \<sigma>) ! ri) [0..<length (rays (particle \<sigma>))] = rays (particle \<sigma>)"
    by (rule map_nth)
  then show ?thesis
    by (simp add: look_st_def look_rays_st_eq look_def)
qed

text \<open>
  C10. \<open>Ray.cast\<close> returns the state it was given: the ray's origin and direction
  and the wall's endpoints are unchanged. \<open>Particle.look\<close> leaves the wall list, the
  particle's position and its rays (every origin and direction) as they were; the one
  field it changes is \<open>ray_lines\<close>.
\<close>

theorem look_frame:
  "snd (cast_st ri bi \<sigma>) = \<sigma>
   \<and> walls (look_st \<sigma>) = walls \<sigma>
   \<and> Particle.pos (particle (look_st \<sigma>)) = Particle.pos (particle \<sigma>)
   \<and> rays (particle (look_st \<sigma>)) = rays (particle \<sigma>)
   \<and> particle (look_st \<sigma>) = look (particle \<sigma>) (walls \<sigma>)
   \<and> Particle.pos (look s bs) = Particle.pos s
   \<and> rays (look s bs) = rays s"
  by (simp add: cast_st_def look_st_eq look_def look_rays_frame)

theorem look_frame_witness:
  "snd (cast_st 0 0
     \<lparr>particle = \<lparr>Particle.pos = \<lparr>x = 0, y = 0\<rparr>,
                        rays = [\<lparr>Ray.pos = \<lparr>x = 0, y = 0\<rparr>, dir = \<lparr>x = 1, y = 0\<rparr>\<rparr>],
                        ray_lines = [\<lparr>x = 7, y = 7\<rparr>]\<rparr>,
            walls = [Boundry_init 10 (- 10) 10 10]\<rparr>) =
     \<lparr>particle = \<lparr>Particle.pos = \<lparr>x = 0, y = 0\<rparr>,
                        rays = [\<lparr>Ray.pos = \<lparr>x = 0, y = 0\<rparr>, dir = \<lparr>x = 1, y = 0\<rparr>\<rparr>],
                        ray_lines = [\<lparr>x = 7, y = 7\<rparr>]\<rparr>,
            walls = [Boundry_init 10 (- 10) 10 10]\<rparr>
   \<and> walls (look_st
     \<lparr>particle = \<lparr>Particle.pos = \<lparr>x = 0, y = 0\<rparr>,
                        rays = [\<lparr>Ray.pos = \<lparr>x = 0, y = 0\<rparr>, dir = \<lparr>x = 1, y = 0\<rparr>\<rparr>],
                        ray_lines = [\<lparr>x = 7, y = 7\<rparr>]\<rparr>,
            walls = [Boundry_init 10 (- 10) 10 10]\<rparr>) = [Boundry_init 10 (- 10) 10 10]
   \<and> Particle.pos (particle (look_st
     \<lparr>particle = \<lparr>Particle.pos = \<lparr>x = 0, y = 0\<rparr>,
                        rays = [\<lparr>Ray.pos = \<lparr>x = 0, y = 0\<rparr>, dir = \<lparr>x = 1, y = 0\<rparr>\<rparr>],
                        ray_lines = [\<lparr>x = 7, y = 7\<rparr>]\<rparr>,
            walls = [Boundry_init 10 (- 10) 10 10]\<rparr>)) = \<lparr>x = 0, y = 0\<rparr>
   \<and> rays (particle (look_st
     \<lparr>particle = \<lparr>Particle.pos = \<lparr>x = 0, y = 0\<rparr>,
                        rays = [\<lparr>Ray.pos = \<lparr>x = 0, y = 0\<rparr>, dir = \<lparr>x = 1, y = 0\<rparr>\<rparr>],
                        ray_lines = [\<lparr>x = 7, y = 7\<rparr>]\<rparr>,
            walls = [Boundry_init 10 (- 10) 10 10]\<rparr>))
       = [\<lparr>Ray.pos = \<lparr>x = 0, y = 0\<rparr>, dir = \<lparr>x = 1, y = 0\<rparr>\<rparr>]
   \<and> ray_lines (particle (look_st
     \<lparr>particle = \<lparr>Particle.pos = \<lparr>x = 0, y = 0\<rparr>,
                        rays = [\<lparr>Ray.pos = \<lparr>x = 0, y = 0\<rparr>, dir = \<lparr>x = 1, y = 0\<rparr>\<rparr>],
                        ray_lines = [\<lparr>x = 7, y = 7\<rparr>]\<rparr>,
            walls = [Boundry_init 10 (- 10) 10 10]\<rparr>)) = [\<lparr>x = 10, y = 0\<rparr>]"
proof -
  have "ray_lines (look
     \<lparr>Particle.pos = \<lparr>x = 0, y = 0\<rparr>,
                   rays = [\<lparr>Ray.pos = \<lparr>x = 0, y = 0\<rparr>, dir = \<lparr>x = 1, y = 0\<rparr>\<rparr>],
                   ray_lines = [\<lparr>x = 7, y = 7\<rparr>]\<rparr> [Boundry_init 10 (- 10) 10 10]) = [\<lparr>x = 10, y = 0\<rparr>]"
    by (simp add: look_def cast_def Boundry_init_def Vec2_bool_def distance_def Let_def)
  then show ?thesis
    using look_frame [of 0 0 "
     \<lparr>particle = \<lparr>Particle.pos = \<lparr>x = 0, y = 0\<rparr>,
                        rays = [\<lparr>Ray.pos = \<lparr>x = 0, y = 0\<rparr>, dir = \<lparr>x = 1, y = 0\<rparr>\<rparr>],
                        ray_lines = [\<lparr>x = 7, y = 7\<rparr>]\<rparr>,
            walls = [Boundry_init 10 (- 10) 10 10]\<rparr>" "
     \<lparr>Particle.pos = \<lparr>x = 0, y = 0\<rparr>,
                   rays = [\<lparr>Ray.pos = \<lparr>x = 0, y = 0\<rparr>, dir = \<lparr>x = 1, y = 0\<rparr>\<rparr>],
                   ray_lines = [\<lparr>x = 7, y = 7\<rparr>]\<rparr>" "[Boundry_init 10 (- 10) 10 10]"]
    by simp
qed









section \<open>The nearest hit of one ray\<close>

text \<open>
  The inner loop on hits that \<open>if pt:\<close> accepts. Once a point is recorded with its
  distance, walls that are not strictly nearer leave it in place; and walls that are all
  strictly farther than a point \<open>q\<close> keep the record above the distance of \<open>q\<close>.
\<close>

lemma look_walls_keep:
  assumes "\<forall>w'\<in>set ws. \<forall>q'. cast r w' = Some q' \<longrightarrow> Vec2_bool q' \<longrightarrow> distance p q \<le> distance p q'"
  shows "look_walls p r ws (Dist (distance p q)) (Some q) = (Dist (distance p q), Some q)"
  using assms
proof (induction ws)
  case Nil
  show ?case by simp
next
  case (Cons w ws)
  then have IH: "look_walls p r ws (Dist (distance p q)) (Some q) = (Dist (distance p q), Some q)"
    by simp
  show ?case
  proof (cases "cast r w")
    case None
    with IH show ?thesis by simp
  next
    case (Some pt)
    show ?thesis
    proof (cases "Vec2_bool pt")
      case True
      with Some Cons.prems have "distance p q \<le> distance p pt" by simp
      then have "\<not> less_record (distance p pt) (Dist (distance p q))" by simp
      with Some True IH show ?thesis by (simp add: Let_def)
    next
      case False
      with Some IH show ?thesis by simp
    qed
  qed
qed

lemma look_walls_skip:
  assumes "less_record (distance p q) rcd"
    and "\<forall>w'\<in>set pre. \<forall>q'. cast r w' = Some q' \<longrightarrow> Vec2_bool q' \<longrightarrow> distance p q < distance p q'"
  shows "\<exists>rcd' c'. less_record (distance p q) rcd'
           \<and> look_walls p r (pre @ ws) rcd closest = look_walls p r ws rcd' c'"
  using assms
proof (induction pre arbitrary: rcd closest)
  case Nil
  then show ?case by auto
next
  case (Cons w pre)
  from Cons.prems(2) have rest:
    "\<forall>w'\<in>set pre. \<forall>q'. cast r w' = Some q' \<longrightarrow> Vec2_bool q' \<longrightarrow> distance p q < distance p q'"
    by simp
  show ?case
  proof (cases "cast r w")
    case None
    with Cons.IH [OF Cons.prems(1) rest, of closest] show ?thesis by simp
  next
    case (Some pt)
    show ?thesis
    proof (cases "Vec2_bool pt \<and> less_record (distance p pt) rcd")
      case True
      with Some Cons.prems(2) have "distance p q < distance p pt" by simp
      then have "less_record (distance p q) (Dist (distance p pt))" by simp
      from Cons.IH [OF this rest, of "Some pt"] Some True show ?thesis
        by (simp add: Let_def)
    next
      case False
      with Cons.IH [OF Cons.prems(1) rest, of closest] Some show ?thesis
        by (auto simp: Let_def)
    qed
  qed
qed

text \<open>
  Ties go to the first wall: a true hit \<open>q\<close> is the closest point when all true
  hits before it are strictly farther and no true hit after it is nearer.
\<close>

lemma look_walls_first_nearest:
  assumes "cast r w = Some q" and "Vec2_bool q"
    and "\<forall>w'\<in>set pre. \<forall>q'. cast r w' = Some q' \<longrightarrow> Vec2_bool q' \<longrightarrow> distance p q < distance p q'"
    and "\<forall>w'\<in>set post. \<forall>q'. cast r w' = Some q' \<longrightarrow> Vec2_bool q' \<longrightarrow> distance p q \<le> distance p q'"
  shows "snd (look_walls p r (pre @ w # post) Math_inf None) = Some q"
proof -
  have "less_record (distance p q) Math_inf" by simp
  from look_walls_skip [OF this assms(3), where ws = "w # post" and closest = None]
  obtain rcd' c' where l: "less_record (distance p q) rcd'"
    and e: "look_walls p r (pre @ w # post) Math_inf None = look_walls p r (w # post) rcd' c'"
    by blast
  have "look_walls p r (w # post) rcd' c' = look_walls p r post (Dist (distance p q)) (Some q)"
    using assms(1,2) l by (simp add: Let_def)
  also have "\<dots> = (Dist (distance p q), Some q)"
    using assms(4) by (rule look_walls_keep)
  finally show ?thesis using e by simp
qed

text \<open>
  The strictly nearest true hit is the closest point, wherever its wall stands in the
  list: the condition speaks of the set of walls only.
\<close>

lemma look_walls_nearest:
  assumes "w \<in> set ws" and "cast r w = Some q" and "Vec2_bool q"
    and "\<forall>w'\<in>set ws. \<forall>q'. cast r w' = Some q' \<longrightarrow> Vec2_bool q' \<longrightarrow> q' = q \<or> distance p q < distance p q'"
  shows "snd (look_walls p r ws Math_inf None) = Some q"
proof -
  from assms(1,2) have "\<exists>v\<in>set ws. cast r v = Some q" by blast
  from split_list_first_prop [where P = "\<lambda>v. cast r v = Some q", OF this]
  obtain pre w1 post where ws: "ws = pre @ w1 # post" and h: "cast r w1 = Some q"
    and first: "\<forall>w'\<in>set pre. cast r w' \<noteq> Some q"
    by blast
  have pre: "\<forall>w'\<in>set pre. \<forall>q'. cast r w' = Some q' \<longrightarrow> Vec2_bool q' \<longrightarrow> distance p q < distance p q'"
    using assms(4) first ws by auto
  have post: "\<forall>w'\<in>set post. \<forall>q'. cast r w' = Some q' \<longrightarrow> Vec2_bool q' \<longrightarrow> distance p q \<le> distance p q'"
    using assms(4) ws by fastforce
  show ?thesis
    unfolding ws using h assms(3) pre post by (rule look_walls_first_nearest)
qed

lemma look_walls_nearest_reordered:
  assumes "set ws' = set ws"
    and "w \<in> set ws" and "cast r w = Some q" and "Vec2_bool q"
    and "\<forall>w'\<in>set ws. \<forall>q'. cast r w' = Some q' \<longrightarrow> Vec2_bool q' \<longrightarrow> q' = q \<or> distance p q < distance p q'"
  shows "snd (look_walls p r ws' Math_inf None) = snd (look_walls p r ws Math_inf None)"
proof -
  have "snd (look_walls p r ws Math_inf None) = Some q"
    using assms(2-5) by (rule look_walls_nearest)
  moreover have "snd (look_walls p r ws' Math_inf None) = Some q"
    using assms(2-5) unfolding assms(1) [symmetric] by (rule look_walls_nearest)
  ultimately show ?thesis by simp
qed

lemma look_walls_nearest_example:
  "snd (look_walls \<lparr>x = 0, y = 0\<rparr> \<lparr>Ray.pos = \<lparr>x = 0, y = 0\<rparr>, dir = \<lparr>x = 1, y = 0\<rparr>\<rparr>
          [Boundry_init 20 (- 10) 20 10, Boundry_init 10 (- 10) 10 10] Math_inf None)
     = Some \<lparr>x = 10, y = 0\<rparr>"
proof (rule look_walls_nearest [where w = "Boundry_init 10 (- 10) 10 10"])
  show "Boundry_init 10 (- 10) 10 10 \<in> set [Boundry_init 20 (- 10) 20 10, Boundry_init 10 (- 10) 10 10]"
    by simp
  show "cast \<lparr>Ray.pos = \<lparr>x = 0, y = 0\<rparr>, dir = \<lparr>x = 1, y = 0\<rparr>\<rparr> (Boundry_init 10 (- 10) 10 10)
          = Some \<lparr>x = 10, y = 0\<rparr>"
    by (simp add: cast_def Boundry_init_def Let_def)
  show "Vec2_bool \<lparr>x = 10, y = 0\<rparr>"
    by (simp add: Vec2_bool_def)
  show "\<forall>w'\<in>set [Boundry_init 20 (- 10) 20 10, Boundry_init 10 (- 10) 10 10]. \<forall>q'.
          cast \<lparr>Ray.pos = \<lparr>x = 0, y = 0\<rparr>, dir = \<lparr>x = 1, y = 0\<rparr>\<rparr> w' = Some q' \<longrightarrow> Vec2_bool q' \<longrightarrow>
          q' = \<lparr>x = 10, y = 0\<rparr>
          \<or> distance \<lparr>x = 0, y = 0\<rparr> \<lparr>x = 10, y = 0\<rparr> < distance \<lparr>x = 0, y = 0\<rparr> q'"
    by (auto simp: cast_def Boundry_init_def distance_def Let_def)
qed

text \<open>
  C5. The claim asks for the nearer of two hits whatever the order of the walls. The
  code does so for every hit that \<open>if pt:\<close> accepts (\<open>look_walls_nearest\<close>), and
  misses the case of a hit at \<open>(0,0)\<close>, which is a false vector: the particle of
  \<open>Particle(360)\<close>, moved to \<open>(-2,0)\<close>, has one ray along \<open>+x\<close>; it hits the
  wall from \<open>(0,-1)\<close> to \<open>(0,1)\<close> at \<open>(0,0)\<close>, distance 2, and the wall from
  \<open>(1,-1)\<close> to \<open>(1,1)\<close> at \<open>(1,0)\<close>, distance 3; \<open>look\<close> records the farther
  point \<open>(1,0)\<close>, in either order of the walls.
\<close>

theorem look_origin_hit_skipped:
  "Particle_init 360
     = Some \<lparr>Particle.pos = \<lparr>x = 512, y = 360\<rparr>,
             rays = [\<lparr>Ray.pos = \<lparr>x = 512, y = 360\<rparr>, dir = \<lparr>x = 1, y = 0\<rparr>\<rparr>],
             ray_lines = []\<rparr>
   \<and> Particle_move_to \<lparr>Particle.pos = \<lparr>x = 512, y = 360\<rparr>,
             rays = [\<lparr>Ray.pos = \<lparr>x = 512, y = 360\<rparr>, dir = \<lparr>x = 1, y = 0\<rparr>\<rparr>],
             ray_lines = []\<rparr> \<lparr>x = - 2, y = 0\<rparr>
     = \<lparr>Particle.pos = \<lparr>x = - 2, y = 0\<rparr>,
             rays = [\<lparr>Ray.pos = \<lparr>x = - 2, y = 0\<rparr>, dir = \<lparr>x = 1, y = 0\<rparr>\<rparr>],
             ray_lines = []\<rparr>
   \<and> cast \<lparr>Ray.pos = \<lparr>x = - 2, y = 0\<rparr>, dir = \<lparr>x = 1, y = 0\<rparr>\<rparr> (Boundry_init 0 (- 1) 0 1)
     = Some \<lparr>x = 0, y = 0\<rparr>
   \<and> cast \<lparr>Ray.pos = \<lparr>x = - 2, y = 0\<rparr>, dir = \<lparr>x = 1, y = 0\<rparr>\<rparr> (Boundry_init 1 (- 1) 1 1)
     = Some \<lparr>x = 1, y = 0\<rparr>
   \<and> distance \<lparr>x = - 2, y = 0\<rparr> \<lparr>x = 0, y = 0\<rparr> < distance \<lparr>x = - 2, y = 0\<rparr> \<lparr>x = 1, y = 0\<rparr>
   \<and> ray_lines (look \<lparr>Particle.pos = \<lparr>x = - 2, y = 0\<rparr>,
             rays = [\<lparr>Ray.pos = \<lparr>x = - 2, y = 0\<rparr>, dir = \<lparr>x = 1, y = 0\<rparr>\<rparr>],
             ray_lines = []\<rparr> [Boundry_init 0 (- 1) 0 1, Boundry_init 1 (- 1) 1 1])
     = [\<lparr>x = 1, y = 0\<rparr>]
   \<and> ray_lines (look \<lparr>Particle.pos = \<lparr>x = - 2, y = 0\<rparr>,
             rays = [\<lparr>Ray.pos = \<lparr>x = - 2, y = 0\<rparr>, dir = \<lparr>x = 1, y = 0\<rparr>\<rparr>],
             ray_lines = []\<rparr> [Boundry_init 1 (- 1) 1 1, Boundry_init 0 (- 1) 0 1])
     = [\<lparr>x = 1, y = 0\<rparr>]"
proof -
  have "fl 360 = 360"
    by (simp add: fl_numeral)
  then have "Particle_init 360
     = Some \<lparr>Particle.pos = \<lparr>x = 512, y = 360\<rparr>,
             rays = [\<lparr>Ray.pos = \<lparr>x = 512, y = 360\<rparr>, dir = \<lparr>x = 1, y = 0\<rparr>\<rparr>],
             ray_lines = []\<rparr>"
    by (simp add: Particle_init_doubles fl_one fl_zero radians_def from_polar_def)
  then show ?thesis
    by (simp add: Particle_move_to_def Ray_move_to_def
          look_def cast_def Boundry_init_def Vec2_bool_def distance_def Let_def)
qed

text \<open>
  C6. The claim asks for the first wall's hit when two walls are hit at equal distance.
  The code does so for hits that \<open>if pt:\<close> accepts (\<open>look_walls_first_nearest\<close>),
  and misses the case of a tie at \<open>(0,0)\<close>: the ray from \<open>(-2,0)\<close> along \<open>+x\<close>
  hits the wall from \<open>(0,-1)\<close> to \<open>(0,1)\<close> and the wall from \<open>(-1,-1)\<close> to
  \<open>(1,1)\<close> at the same point \<open>(0,0)\<close>, and \<open>look\<close> records nothing.
\<close>

theorem look_origin_tie_dropped:
  "cast \<lparr>Ray.pos = \<lparr>x = - 2, y = 0\<rparr>, dir = \<lparr>x = 1, y = 0\<rparr>\<rparr> (Boundry_init 0 (- 1) 0 1)
     = Some \<lparr>x = 0, y = 0\<rparr>
   \<and> cast \<lparr>Ray.pos = \<lparr>x = - 2, y = 0\<rparr>, dir = \<lparr>x = 1, y = 0\<rparr>\<rparr> (Boundry_init (- 1) (- 1) 1 1)
     = Some \<lparr>x = 0, y = 0\<rparr>
   \<and> ray_lines (look \<lparr>Particle.pos = \<lparr>x = - 2, y = 0\<rparr>,
             rays = [\<lparr>Ray.pos = \<lparr>x = - 2, y = 0\<rparr>, dir = \<lparr>x = 1, y = 0\<rparr>\<rparr>],
             ray_lines = []\<rparr> [Boundry_init 0 (- 1) 0 1, Boundry_init (- 1) (- 1) 1 1])
     = []"
  by (simp add: look_def cast_def Boundry_init_def Vec2_bool_def distance_def Let_def)

end
